theory Spec2Isabelle
  imports Complex_Main "HOL-Library.Multiset"
begin

section \<open>Python floats, comparison and sorting\<close>

text \<open>
  Both scripts compute with Python floats. A float is modelled by its mathematical value:
  a real number, one of the two infinities, or NaN. Rounding, overflow of a finite result
  and the sign of zero are not modelled (\<open>Fin 0\<close> stands for \<open>+0.0\<close>).
\<close>

datatype pyfloat = NaN | NInf | Fin real | PInf

fun isnan :: "pyfloat \<Rightarrow> bool" where
  "isnan NaN = True"
| "isnan _ = False"

text \<open>Python's \<open>a < b\<close> on floats: every comparison with NaN is false.\<close>

fun flt :: "pyfloat \<Rightarrow> pyfloat \<Rightarrow> bool" where
  "flt NaN _ = False"
| "flt _ NaN = False"
| "flt NInf NInf = False"
| "flt NInf _ = True"
| "flt (Fin x) (Fin y) = (x < y)"
| "flt (Fin x) PInf = True"
| "flt (Fin x) NInf = False"
| "flt PInf _ = False"

text \<open>numpy's elementwise \<open>a / b\<close> on float64 (division by zero gives an infinity or NaN).\<close>

fun fdiv :: "pyfloat \<Rightarrow> pyfloat \<Rightarrow> pyfloat" where
  "fdiv NaN _ = NaN"
| "fdiv _ NaN = NaN"
| "fdiv (Fin x) (Fin y) =
     (if y = 0 then (if x = 0 then NaN else if 0 < x then PInf else NInf) else Fin (x / y))"
| "fdiv (Fin x) PInf = Fin 0"
| "fdiv (Fin x) NInf = Fin 0"
| "fdiv PInf (Fin y) = (if 0 \<le> y then PInf else NInf)"
| "fdiv NInf (Fin y) = (if 0 \<le> y then NInf else PInf)"
| "fdiv PInf PInf = NaN"
| "fdiv PInf NInf = NaN"
| "fdiv NInf PInf = NaN"
| "fdiv NInf NInf = NaN"

text \<open>\<open>np.log\<close>: the natural logarithm, \<open>-inf\<close> at zero and NaN below it.\<close>

fun flog :: "pyfloat \<Rightarrow> pyfloat" where
  "flog NaN = NaN"
| "flog NInf = NaN"
| "flog PInf = PInf"
| "flog (Fin x) = (if x < 0 then NaN else if x = 0 then NInf else Fin (ln x))"

text \<open>\<open>x * np.sqrt(1440)\<close>: multiplication by a positive finite constant.\<close>

fun times_sqrt_1440 :: "pyfloat \<Rightarrow> pyfloat" where
  "times_sqrt_1440 NaN = NaN"
| "times_sqrt_1440 NInf = NInf"
| "times_sqrt_1440 PInf = PInf"
| "times_sqrt_1440 (Fin x) = Fin (x * sqrt 1440)"

text \<open>
  \<open>list.sort\<close> compares with \<open><\<close> only and is stable. The model is a stable insertion
  sort on the key: an element moves right past the elements whose key is strictly smaller.
  With \<open>reverse=True\<close> CPython reverses the list, sorts it ascending and reverses the result,
  which keeps equal keys in their input order. On keys without NaN the result is the unique
  stable sort; on keys with NaN, where \<open><\<close> is no longer a total order, the place of the NaN
  entries depends on the sorting algorithm, and only what holds for this insertion order is
  claimed.
\<close>

fun insort_lt :: "('a \<Rightarrow> pyfloat) \<Rightarrow> 'a \<Rightarrow> 'a list \<Rightarrow> 'a list" where
  "insort_lt key x [] = [x]"
| "insort_lt key x (y # ys) =
     (if flt (key y) (key x) then y # insort_lt key x ys else x # y # ys)"

definition list_sort :: "('a \<Rightarrow> pyfloat) \<Rightarrow> 'a list \<Rightarrow> 'a list" where
  "list_sort key xs = foldr (insort_lt key) xs []"

definition sorted_py :: "('a \<Rightarrow> pyfloat) \<Rightarrow> bool \<Rightarrow> 'a list \<Rightarrow> 'a list" where
  "sorted_py key reverse xs =
     (if reverse then rev (list_sort key (rev xs)) else list_sort key xs)"

text \<open>Python slices \<open>xs[:n]\<close> and \<open>xs[-k:]\<close>; a negative \<open>n\<close> counts from the end.\<close>

definition slice_to :: "int \<Rightarrow> 'a list \<Rightarrow> 'a list" where
  "slice_to n xs = (if 0 \<le> n then take (nat n) xs else take (length xs - nat (- n)) xs)"

definition slice_last :: "nat \<Rightarrow> 'a list \<Rightarrow> 'a list" where
  "slice_last k xs = (if k = 0 then xs else drop (length xs - k) xs)"

section \<open>evaluate\_volatility.py: volatility of one series\<close>

text \<open>
  A DataFrame of candlesticks is the list of its rows; of the twelve columns only
  \<open>open_time\<close> and \<open>close\<close> are read. \<open>df.empty\<close> is \<open>df = []\<close>. \<open>calculate_volatility\<close>
  also stores the column \<open>log_return\<close> in the frame; nothing reads it afterwards, and the
  model keeps the returned score only.
\<close>

record kline =
  open_time :: int
  close :: pyfloat

type_synonym dataframe = "kline list"

text \<open>\<open>series.shift(1)\<close>: every value moves one row down, the first row becomes NaN.\<close>

definition shift1 :: "pyfloat list \<Rightarrow> pyfloat list" where
  "shift1 cs = take (length cs) (NaN # cs)"

text \<open>\<open>np.log(df['close'] / df['close'].shift(1))\<close>, row by row.\<close>

definition log_return :: "dataframe \<Rightarrow> pyfloat list" where
  "log_return df = map2 (\<lambda>c p. flog (fdiv c p)) (map close df) (shift1 (map close df))"

text \<open>
  \<open>Series.std()\<close> of pandas: NaN entries are skipped, the divisor is \<open>n - 1\<close> (\<open>ddof=1\<close>),
  fewer than two remaining values give NaN, and so does an infinite value among them.
\<close>

fun reals_of :: "pyfloat list \<Rightarrow> real list option" where
  "reals_of [] = Some []"
| "reals_of (Fin x # xs) = map_option (Cons x) (reals_of xs)"
| "reals_of (_ # xs) = None"

definition sample_std :: "real list \<Rightarrow> real" where
  "sample_std rs =
     (let m = sum_list rs / real (length rs)
      in sqrt (sum_list (map (\<lambda>x. (x - m)\<^sup>2) rs) / real (length rs - 1)))"

definition series_std :: "pyfloat list \<Rightarrow> pyfloat" where
  "series_std xs =
     (case reals_of (filter (\<lambda>x. \<not> isnan x) xs) of
        None \<Rightarrow> NaN
      | Some rs \<Rightarrow> if length rs \<le> 1 then NaN else Fin (sample_std rs))"

definition calculate_volatility :: "dataframe option \<Rightarrow> pyfloat" where
  "calculate_volatility d =
     (case d of
        None \<Rightarrow> NaN
      | Some df \<Rightarrow> if df = [] then NaN else times_sqrt_1440 (series_std (log_return df)))"



section \<open>evaluate\_volatility.py: ranking in main\<close>

text \<open>Step 3 of \<open>main\<close>: the loop that scores every result whose frame is not \<open>None\<close>.\<close>

fun volatilities_of :: "(string \<times> dataframe option) list \<Rightarrow> (string \<times> pyfloat) list" where
  "volatilities_of [] = []"
| "volatilities_of ((symb, None) # results) = volatilities_of results"
| "volatilities_of ((symb, Some df) # results) =
     (symb, calculate_volatility (Some df)) # volatilities_of results"

text \<open>Step 4: \<open>sorted(volatilities, key=lambda x: x[1], reverse=True)\<close> and the two slices.\<close>

definition sort_volatilities :: "(string \<times> pyfloat) list \<Rightarrow> (string \<times> pyfloat) list" where
  "sort_volatilities v = sorted_py snd True v"

definition top_n :: "nat \<Rightarrow> (string \<times> pyfloat) list \<Rightarrow> (string \<times> pyfloat) list" where
  "top_n k v = filter (\<lambda>x. \<not> isnan (snd x)) (slice_to (int k) v)"

definition bottom_n :: "nat \<Rightarrow> (string \<times> pyfloat) list \<Rightarrow> (string \<times> pyfloat) list" where
  "bottom_n k v = filter (\<lambda>x. \<not> isnan (snd x)) (slice_last k v)"

definition top_10_volatile :: "(string \<times> pyfloat) list \<Rightarrow> (string \<times> pyfloat) list" where
  "top_10_volatile v = top_n 10 v"

definition bottom_10_volatile :: "(string \<times> pyfloat) list \<Rightarrow> (string \<times> pyfloat) list" where
  "bottom_10_volatile v = bottom_n 10 v"

definition rank :: "(string \<times> dataframe option) list \<Rightarrow> (string \<times> pyfloat) list" where
  "rank results = sort_volatilities (volatilities_of results)"

section \<open>evaluate\_volatility.py: the rate gate\<close>

text \<open>
  A call either returns, raises an exception (kept as its message), or never returns.
  \<open>Deadlock\<close> is the last: the thread waits for ever.
\<close>

datatype error = Exception string | Deadlock

definition RATE_LIMIT_PER_MINUTE :: int where
  "RATE_LIMIT_PER_MINUTE = 1200"

definition WEIGHT_THRESHOLD :: real where
  "WEIGHT_THRESHOLD = real_of_int RATE_LIMIT_PER_MINUTE * 0.9"

text \<open>The module globals \<open>current_weight\<close> and \<open>last_reset_time\<close>.\<close>

record rate_gate =
  current_weight :: int
  last_reset_time :: real

text \<open>
  \<open>lock\<close> is a \<open>threading.Lock\<close>, which is not reentrant: a thread that executes
  \<open>with lock:\<close> while it already holds the lock waits for itself for ever. The first
  argument of \<open>reset_rate_limit\<close> says whether the calling thread holds the lock; the
  second is the value \<open>time.time()\<close> returns inside it.
\<close>

definition reset_rate_limit :: "bool \<Rightarrow> real \<Rightarrow> rate_gate \<Rightarrow> error + rate_gate" where
  "reset_rate_limit lock_held current_time g =
     (if current_time - last_reset_time g \<ge> 60
      then (if lock_held then Inl Deadlock
            else Inr (g\<lparr>current_weight := 0, last_reset_time := current_time\<rparr>))
      else Inr g)"

text \<open>
  One call of \<open>check_rate_limit\<close> reads the clock up to three times: in the first
  \<open>reset_rate_limit\<close> (\<open>t_entry\<close>), when it computes \<open>sleep_time\<close> (\<open>t_check\<close>), and in
  the \<open>reset_rate_limit\<close> after the sleep (\<open>t_wake\<close>). \<open>time.sleep(s)\<close> suspends the
  thread for at least \<open>s\<close> seconds, so the reading after it is never earlier than
  \<open>t_check + s\<close>.
\<close>

record clock_readings =
  t_entry :: real
  t_check :: real
  t_wake :: real

definition time_after_sleep :: "clock_readings \<Rightarrow> real \<Rightarrow> real" where
  "time_after_sleep clk sleep_time = max (t_wake clk) (t_check clk + sleep_time)"

definition check_rate_limit :: "int \<Rightarrow> clock_readings \<Rightarrow> rate_gate \<Rightarrow> error + rate_gate" where
  "check_rate_limit request_weight clk g =
     (case reset_rate_limit False (t_entry clk) g of
        Inl e \<Rightarrow> Inl e
      | Inr g1 \<Rightarrow>
          if real_of_int (current_weight g1 + request_weight) > WEIGHT_THRESHOLD then
            (let sleep_time = 60 - (t_check clk - last_reset_time g1) in
             if sleep_time > 0 then
               (case reset_rate_limit True (time_after_sleep clk sleep_time) g1 of
                  Inl e \<Rightarrow> Inl e
                | Inr g2 \<Rightarrow> Inr (g2\<lparr>current_weight := current_weight g2 + request_weight\<rparr>))
             else Inr (g1\<lparr>current_weight := current_weight g1 + request_weight\<rparr>))
          else Inr (g1\<lparr>current_weight := current_weight g1 + request_weight\<rparr>))"

text \<open>A sequence of calls by one thread; a call that never returns ends the sequence.\<close>

fun acquire_all :: "(int \<times> clock_readings) list \<Rightarrow> rate_gate \<Rightarrow> error + rate_gate" where
  "acquire_all [] g = Inr g"
| "acquire_all ((w, clk) # calls) g =
     (case check_rate_limit w clk g of
        Inl e \<Rightarrow> Inl e
      | Inr g' \<Rightarrow> acquire_all calls g')"

section \<open>evaluate\_volatility.py: selecting the most liquid coins\<close>

text \<open>
  A ticker is the dictionary the exchange returns; only its keys \<open>symbol\<close> and
  \<open>quoteVolume\<close> are read, both strings. Python's builtin \<open>float()\<close> on a string is not
  part of the repository: it is the parameter \<open>to_float\<close>, with \<open>None\<close> for a
  \<open>ValueError\<close>.
\<close>

record ticker =
  symbol :: string
  quoteVolume :: string

definition endswith :: "string \<Rightarrow> string \<Rightarrow> bool" where
  "endswith s suffix =
     (length suffix \<le> length s \<and> drop (length s - length suffix) s = suffix)"

text \<open>
  \<open>sorted\<close> evaluates the key of every element, in order, before it sorts; the first key
  that raises ends the call.
\<close>

fun volume_keys :: "(string \<Rightarrow> pyfloat option) \<Rightarrow> ticker list \<Rightarrow> (pyfloat \<times> ticker) list option" where
  "volume_keys to_float [] = Some []"
| "volume_keys to_float (t # ts) =
     (case to_float (quoteVolume t) of
        None \<Rightarrow> None
      | Some v \<Rightarrow> map_option (Cons (v, t)) (volume_keys to_float ts))"

definition get_top_liquid_coins ::
  "(string \<Rightarrow> pyfloat option) \<Rightarrow> int \<Rightarrow> clock_readings \<Rightarrow> rate_gate \<Rightarrow> error + ticker list
     \<Rightarrow> error + (string list \<times> rate_gate)" where
  "get_top_liquid_coins to_float n clk g get_ticker =
     (case check_rate_limit 40 clk g of
        Inl e \<Rightarrow> Inl e
      | Inr g' \<Rightarrow>
          (case get_ticker of
             Inl e \<Rightarrow> Inl e
           | Inr tickers \<Rightarrow>
               (let usdt_pairs = filter (\<lambda>t. endswith (symbol t) ''USDT'') tickers in
                case volume_keys to_float usdt_pairs of
                  None \<Rightarrow> Inl (Exception ''ValueError'')
                | Some keyed \<Rightarrow>
                    (let sorted_tickers = map snd (sorted_py fst True keyed);
                         top_coins = map symbol (slice_to n sorted_tickers)
                     in Inr (top_coins, g')))))"

section \<open>evaluate\_volatility.py: fetching the series\<close>






section \<open>bitvavo\_telegram.py\<close>

text \<open>
  The values the portfolio dictionary holds, and a dictionary with string keys. Balances
  and prices arrive as decimal strings; their float values are modelled as real numbers
  (\<open>float()\<close> is again a parameter, \<open>to_real\<close>, with \<open>None\<close> for a \<open>ValueError\<close>).
\<close>

datatype pyval = VNone | VStr string | VFloat real | VInt int | VList "pyval list"

type_synonym pydict = "string \<rightharpoonup> pyval"

text \<open>One entry of \<open>bitvavo.balance({})\<close>; \<open>asset_symbol\<close> is its key \<open>symbol\<close>.\<close>

record asset =
  asset_symbol :: string
  available :: string
  inOrder :: string

text \<open>
  What the script reads from outside: two environment variables and the answers of the
  exchange client. A client call raises (\<open>Inl\<close> of the message) or returns;
  \<open>tickerPrice\<close> returns a dictionary of which only the key \<open>price\<close> is read (\<open>None\<close> when
  the key is missing).
\<close>

record bitvavo_env =
  BITVAVO_API_KEY :: "string option"
  BITVAVO_API_SECRET :: "string option"
  balance :: "string + asset list"
  tickerPrice :: "string \<Rightarrow> string + string option"
  getRemainingLimit :: "string + int"

text \<open>Python's \<open>not s\<close> for the result of \<open>os.getenv\<close>: unset or empty.\<close>

definition unset :: "string option \<Rightarrow> bool" where
  "unset v = (v = None \<or> v = Some [])"

text \<open>
  The inner \<open>try\<close> of the loop: the price of \<open>symbol-EUR\<close>, or \<open>None\<close> when the client
  raises, the answer has no \<open>price\<close>, or the price is no number. Each of these leaves
  \<open>value_eur\<close> at 0.0 and the total as it was.
\<close>

definition fetch_price ::
  "(string \<Rightarrow> real option) \<Rightarrow> (string \<Rightarrow> string + string option) \<Rightarrow> string \<Rightarrow> real option" where
  "fetch_price to_real ticker_price symb =
     (case ticker_price (symb @ ''-EUR'') of
        Inl e \<Rightarrow> None
      | Inr None \<Rightarrow> None
      | Inr (Some p) \<Rightarrow> to_real p)"

text \<open>
  The loop \<open>for asset in balance\<close>, with its two accumulators \<open>total_portfolio_value\<close> and
  \<open>asset_values\<close>. A balance that is no number raises out of the loop.
\<close>

fun value_assets ::
  "(string \<Rightarrow> real option) \<Rightarrow> (string \<Rightarrow> string + string option) \<Rightarrow> asset list
     \<Rightarrow> real \<Rightarrow> pyval list \<Rightarrow> string + (real \<times> pyval list)" where
  "value_assets to_real ticker_price [] total_portfolio_value asset_values =
     Inr (total_portfolio_value, asset_values)"
| "value_assets to_real ticker_price (a # rest) total_portfolio_value asset_values =
     (case to_real (available a) of
        None \<Rightarrow> Inl ''ValueError''
      | Some avail \<Rightarrow>
          (case to_real (inOrder a) of
             None \<Rightarrow> Inl ''ValueError''
           | Some in_order \<Rightarrow>
               (let total_amount = avail + in_order in
                if asset_symbol a = ''EUR'' then
                  value_assets to_real ticker_price rest (total_portfolio_value + avail)
                    (asset_values @ [VList [VStr (asset_symbol a), VFloat total_amount, VFloat avail]])
                else
                  (case fetch_price to_real ticker_price (asset_symbol a) of
                     Some price \<Rightarrow>
                       (let value_eur = total_amount * price in
                        value_assets to_real ticker_price rest (total_portfolio_value + value_eur)
                          (asset_values @
                             [VList [VStr (asset_symbol a), VFloat total_amount, VFloat value_eur]]))
                   | None \<Rightarrow>
                       value_assets to_real ticker_price rest total_portfolio_value
                         (asset_values @
                            [VList [VStr (asset_symbol a), VFloat total_amount, VFloat 0]])))))"

text \<open>The body of the outer \<open>try\<close>: \<open>Inl\<close> is the exception that leaves it.\<close>

definition portfolio_body :: "(string \<Rightarrow> real option) \<Rightarrow> bitvavo_env \<Rightarrow> string + pydict" where
  "portfolio_body to_real env =
     (if unset (BITVAVO_API_KEY env) \<or> unset (BITVAVO_API_SECRET env)
      then Inl ''Bitvavo API key or secret not found in environment variables.''
      else
        (case balance env of
           Inl e \<Rightarrow> Inl e
         | Inr bal \<Rightarrow>
             (case value_assets to_real (tickerPrice env) bal 0 [] of
                Inl e \<Rightarrow> Inl e
              | Inr (total_portfolio_value, asset_values) \<Rightarrow>
                  (case getRemainingLimit env of
                     Inl e \<Rightarrow> Inl e
                   | Inr remaining \<Rightarrow>
                       Inr [''portfolio_value_eur'' \<mapsto> VFloat total_portfolio_value,
                            ''asset_values'' \<mapsto> VList asset_values,
                            ''rate_limit_remaining'' \<mapsto> VInt remaining]))))"

definition get_bitvavo_portfolio :: "(string \<Rightarrow> real option) \<Rightarrow> bitvavo_env \<Rightarrow> pydict" where
  "get_bitvavo_portfolio to_real env =
     (case portfolio_body to_real env of
        Inl e \<Rightarrow> [''error'' \<mapsto> VStr e]
      | Inr result \<Rightarrow> result)"






text \<open>The third component of an \<open>asset_values\<close> entry, its \<open>value_eur\<close>.\<close>

fun entry_value :: "pyval \<Rightarrow> real" where
  "entry_value (VList [s, amount, VFloat v]) = v"
| "entry_value _ = 0"

section \<open>Auxiliary definitions for the proofs\<close>

text \<open>
  The gate as the first, unlocked \<open>reset_rate_limit\<close> of a call leaves it: with a new
  window when the old one has run out at the reading \<open>t\<close>, unchanged otherwise.
\<close>

definition window_start :: "real \<Rightarrow> rate_gate \<Rightarrow> rate_gate" where
  "window_start t g =
     (if t - last_reset_time g \<ge> 60 then g\<lparr>current_weight := 0, last_reset_time := t\<rparr> else g)"

text \<open>
  The entry the loop of \<open>get_bitvavo_portfolio\<close> appends for one asset, given its two
  parsed amounts.
\<close>

definition expected_entry ::
  "(string \<Rightarrow> real option) \<Rightarrow> (string \<Rightarrow> string + string option) \<Rightarrow> asset \<Rightarrow> real \<Rightarrow> real \<Rightarrow> pyval" where
  "expected_entry to_real ticker_price a avail in_order =
     VList [VStr (asset_symbol a), VFloat (avail + in_order),
            VFloat (if asset_symbol a = ''EUR'' then avail
                    else (case fetch_price to_real ticker_price (asset_symbol a) of
                            Some price \<Rightarrow> (avail + in_order) * price
                          | None \<Rightarrow> 0))]"

section \<open>Example data\<close>

text \<open>
  \<open>float()\<close> on the strings the examples use, for the volumes of the scanner and for the
  amounts of the portfolio script.
\<close>

definition example_float :: "string \<Rightarrow> pyfloat option" where
  "example_float s =
     (if s = ''1'' then Some (Fin 1) else if s = ''2'' then Some (Fin 2)
      else if s = ''nan'' then Some NaN else None)"

definition example_real :: "string \<Rightarrow> real option" where
  "example_real s =
     (if s = ''1'' then Some 1 else if s = ''2'' then Some 2
      else if s = ''3'' then Some 3 else if s = ''10'' then Some 10 else None)"

text \<open>Three candlesticks with the same closing price.\<close>

definition flat_series :: dataframe where
  "flat_series =
     [\<lparr>open_time = 0, close = Fin 50\<rparr>, \<lparr>open_time = 60000, close = Fin 50\<rparr>,
      \<lparr>open_time = 120000, close = Fin 50\<rparr>]"

text \<open>
  The scenario of the specification: a series 100, 110, 105, a constant series and a symbol
  whose fetch failed; and a ranked sequence with an undefined score in it.
\<close>

definition rising_series :: dataframe where
  "rising_series =
     [\<lparr>open_time = 0, close = Fin 100\<rparr>, \<lparr>open_time = 60000, close = Fin 110\<rparr>,
      \<lparr>open_time = 120000, close = Fin 105\<rparr>]"

definition example_results :: "(string \<times> dataframe option) list" where
  "example_results =
     [(''FLATUSDT'', Some flat_series), (''GONEUSDT'', None), (''RISEUSDT'', Some rising_series)]"

definition example_ranked :: "(string \<times> pyfloat) list" where
  "example_ranked = [(''AAAUSDT'', Fin 3), (''BBBUSDT'', NaN), (''CCCUSDT'', Fin 2), (''DDDUSDT'', Fin 1)]"

text \<open>
  Tickers for the selection: a pair that is not quoted in USDT, two equal volumes, and a
  list with a volume that parses to NaN. A gate as the module creates it, and the clock
  readings of a call during which no time passes.
\<close>

definition example_tickers :: "ticker list" where
  "example_tickers =
     [\<lparr>symbol = ''AAAUSDT'', quoteVolume = ''1''\<rparr>, \<lparr>symbol = ''BBBUSDT'', quoteVolume = ''2''\<rparr>,
      \<lparr>symbol = ''CCCBTC'', quoteVolume = ''2''\<rparr>, \<lparr>symbol = ''DDDUSDT'', quoteVolume = ''2''\<rparr>]"

definition nan_tickers :: "ticker list" where
  "nan_tickers =
     [\<lparr>symbol = ''AAAUSDT'', quoteVolume = ''1''\<rparr>, \<lparr>symbol = ''NNNUSDT'', quoteVolume = ''nan''\<rparr>,
      \<lparr>symbol = ''BBBUSDT'', quoteVolume = ''2''\<rparr>]"

definition fresh_gate :: rate_gate where
  "fresh_gate = \<lparr>current_weight = 0, last_reset_time = 0\<rparr>"

definition at_time :: "real \<Rightarrow> clock_readings" where
  "at_time t = \<lparr>t_entry = t, t_check = t, t_wake = t\<rparr>"


text \<open>
  An exchange that knows the price of one coin, an account with a euro balance and that
  coin, the same account when the balance call fails, and a working Telegram bot.
\<close>

definition example_prices :: "string \<Rightarrow> string + string option" where
  "example_prices market =
     (if market = ''BTC-EUR'' then Inr (Some ''3'')
      else if market = ''ETH-EUR'' then Inr None
      else Inl ''market not found'')"

definition example_env :: bitvavo_env where
  "example_env =
     \<lparr>BITVAVO_API_KEY = Some ''key'', BITVAVO_API_SECRET = Some ''secret'',
      balance = Inr [\<lparr>asset_symbol = ''EUR'', available = ''10'', inOrder = ''2''\<rparr>,
                     \<lparr>asset_symbol = ''BTC'', available = ''1'', inOrder = ''2''\<rparr>],
      tickerPrice = example_prices, getRemainingLimit = Inr 900\<rparr>"



section \<open>Sorting lemmas\<close>

lemma flt_irrefl: "\<not> flt a a"
  by (cases a) simp_all

lemma flt_asym: "flt a b \<Longrightarrow> \<not> flt b a"
  by (cases a; cases b) simp_all

lemma flt_trans: "flt a b \<Longrightarrow> flt b c \<Longrightarrow> flt a c"
  by (cases a; cases b; cases c) simp_all

lemma flt_total: "\<not> isnan a \<Longrightarrow> \<not> isnan b \<Longrightarrow> flt a b \<or> a = b \<or> flt b a"
  by (cases a; cases b) auto

lemma mset_insort_lt: "mset (insort_lt key x ys) = add_mset x (mset ys)"
  by (induction ys) simp_all

lemma mset_list_sort: "mset (list_sort key xs) = mset xs"
  by (induction xs) (simp_all add: list_sort_def mset_insort_lt)

lemma set_list_sort: "set (list_sort key xs) = set xs"
  using mset_list_sort [of key xs] by (metis set_mset_mset)

lemma filter_insort_lt:
  "filter (\<lambda>y. key y = v) (insort_lt key x ys) = filter (\<lambda>y. key y = v) (x # ys)"
  by (induction ys) (auto simp: flt_irrefl)

lemma filter_list_sort:
  "filter (\<lambda>y. key y = v) (list_sort key xs) = filter (\<lambda>y. key y = v) xs"
  by (induction xs) (simp_all add: list_sort_def filter_insort_lt)

lemma set_insort_lt: "set (insort_lt key x ys) = insert x (set ys)"
  by (induction ys) auto

lemma sorted_insort_lt:
  assumes "\<not> isnan (key x)" "\<forall>y \<in> set ys. \<not> isnan (key y)"
    and "sorted_wrt (\<lambda>a b. \<not> flt (key b) (key a)) ys"
  shows "sorted_wrt (\<lambda>a b. \<not> flt (key b) (key a)) (insort_lt key x ys)"
  using assms
proof (induction ys)
  case Nil
  then show ?case by simp
next
  case (Cons y ys)
  show ?case
  proof (cases "flt (key y) (key x)")
    case True
    have "\<not> flt (key z) (key y)" if "z \<in> set (insort_lt key x ys)" for z
      using that Cons.prems True by (auto simp: set_insort_lt dest: flt_asym)
    with Cons True show ?thesis by simp
  next
    case False
    have "\<not> flt (key z) (key x)" if "z \<in> set ys" for z
    proof
      assume zx: "flt (key z) (key x)"
      from Cons.prems that have "\<not> flt (key z) (key y)" by simp
      moreover from Cons.prems that have "\<not> isnan (key z)" "\<not> isnan (key y)" by simp_all
      ultimately have "key z = key y \<or> flt (key y) (key z)" using flt_total by blast
      with zx False show False by (metis flt_trans)
    qed
    with Cons.prems False show ?thesis by simp
  qed
qed

lemma sorted_list_sort:
  "\<forall>y \<in> set xs. \<not> isnan (key y) \<Longrightarrow> sorted_wrt (\<lambda>a b. \<not> flt (key b) (key a)) (list_sort key xs)"
proof (induction xs)
  case Nil
  then show ?case by (simp add: list_sort_def)
next
  case (Cons x xs)
  then have "sorted_wrt (\<lambda>a b. \<not> flt (key b) (key a)) (insort_lt key x (list_sort key xs))"
    by (intro sorted_insort_lt) (simp_all add: set_list_sort)
  then show ?case by (simp add: list_sort_def)
qed



lemma list_sort_fixed:
  "successively (\<lambda>a b. \<not> flt (key b) (key a)) xs \<Longrightarrow> list_sort key xs = xs"
proof (induction xs)
  case Nil
  then show ?case by (simp add: list_sort_def)
next
  case (Cons x xs)
  then have "list_sort key xs = xs" by (cases xs) simp_all
  with Cons.prems show ?case by (cases xs) (simp_all add: list_sort_def)
qed



section \<open>Claims on the ranking\<close>


section \<open>Claims on the volatility score\<close>







lemma calculate_volatility_flat: "calculate_volatility (Some flat_series) = Fin 0"
  by (simp add: calculate_volatility_def flat_series_def log_return_def shift1_def
      series_std_def sample_std_def)

lemma calculate_volatility_two_points: "calculate_volatility (Some (take 2 flat_series)) = NaN"
  by (simp add: calculate_volatility_def flat_series_def log_return_def shift1_def
      series_std_def sample_std_def)


lemma mset_sorted_py: "mset (sorted_py key r xs) = mset xs"
  by (simp add: sorted_py_def mset_list_sort)

lemma set_sorted_py: "set (sorted_py key r xs) = set xs"
  using mset_sorted_py [of key r xs] by (metis set_mset_mset)

lemma filter_sorted_py:
  "filter (\<lambda>y. key y = v) (sorted_py key r xs) = filter (\<lambda>y. key y = v) xs"
  by (simp add: sorted_py_def filter_list_sort rev_filter [symmetric])

lemma sorted_py_descending:
  assumes "\<forall>y \<in> set xs. \<not> isnan (key y)"
  shows "sorted_wrt (\<lambda>a b. \<not> flt (key a) (key b)) (sorted_py key True xs)"
proof -
  from assms have "sorted_wrt (\<lambda>a b. \<not> flt (key b) (key a)) (list_sort key (rev xs))"
    by (intro sorted_list_sort) simp
  then show ?thesis
    by (simp add: sorted_py_def sorted_wrt_rev)
qed

lemma volatilities_of_filter:
  "volatilities_of results =
     map (\<lambda>r. (fst r, calculate_volatility (snd r))) (filter (\<lambda>r. snd r \<noteq> None) results)"
  by (induction results rule: volatilities_of.induct) simp_all

lemma top_n_defined: "x \<in> set (top_n k v) \<Longrightarrow> \<not> isnan (snd x)"
  by (simp add: top_n_def)

lemma bottom_n_defined: "x \<in> set (bottom_n k v) \<Longrightarrow> \<not> isnan (snd x)"
  by (simp add: bottom_n_def)

lemma empty_series_kept:
  assumes "(s, Some []) \<in> set results"
  shows "(s, NaN) \<in> set (rank results)"
proof -
  from assms have "(s, calculate_volatility (Some [])) \<in> set (volatilities_of results)"
    unfolding volatilities_of_filter by force
  then show ?thesis
    by (simp add: rank_def sort_volatilities_def set_sorted_py calculate_volatility_def)
qed

lemma calculate_volatility_rising:
  "calculate_volatility (Some rising_series) =
     Fin (sample_std [ln (11 / 10), ln (21 / 22)] * sqrt 1440)"
  by (simp add: calculate_volatility_def rising_series_def log_return_def shift1_def
      series_std_def)

lemma sample_std_pair_pos:
  fixes a b :: real
  assumes "b < a"
  shows "0 < sample_std [a, b]"
proof -
  define m where "m = (a + b) / 2"
  from assms have "0 < a - m"
    unfolding m_def by (simp add: field_simps)
  then have "0 < (a - m)\<^sup>2" by simp
  moreover have "0 \<le> (b - m)\<^sup>2" by simp
  ultimately have "0 < (a - m)\<^sup>2 + (b - m)\<^sup>2" by linarith
  then show ?thesis
    by (simp add: sample_std_def m_def Let_def)
qed

lemma sample_std_rising: "0 < sample_std [ln (11 / 10), ln (21 / 22)]"
proof -
  have "ln (21 / 22 :: real) < 0" and "0 < ln (11 / 10 :: real)" by simp_all
  then have "ln (21 / 22 :: real) < ln (11 / 10)" by (rule less_trans)
  then show ?thesis by (rule sample_std_pair_pos)
qed

lemma volatilities_of_example:
  "volatilities_of example_results =
     [(''FLATUSDT'', Fin 0),
      (''RISEUSDT'', Fin (sample_std [ln (11 / 10), ln (21 / 22)] * sqrt 1440))]"
  by (simp add: example_results_def calculate_volatility_flat calculate_volatility_rising)

lemma rank_example:
  "rank example_results =
     [(''RISEUSDT'', Fin (sample_std [ln (11 / 10), ln (21 / 22)] * sqrt 1440)),
      (''FLATUSDT'', Fin 0)]"
  using sample_std_rising
  by (simp add: rank_def volatilities_of_example sort_volatilities_def sorted_py_def list_sort_def)

text \<open>
  C4, as the claim states it, fails: a frame that is present but empty is not excluded
  before the sort. \<open>calculate_volatility\<close> scores it NaN and the entry goes through
  \<open>sorted\<close> into the ranked sequence.
\<close>

theorem rank_keeps_empty_series_counterexample:
  "rank [(''AAAUSDT'', Some [])] = [(''AAAUSDT'', NaN)]"
  by (simp add: rank_def sort_volatilities_def sorted_py_def list_sort_def
      calculate_volatility_def)

text \<open>
  C4, amended. Only the symbols whose frame is \<open>None\<close> are excluded before the sort: the
  sequence that is sorted holds one entry per result with a frame, in input order, with
  the score \<open>calculate_volatility\<close> gives it. The sort keeps every entry, so an empty frame
  appears in the ranked sequence with score NaN. When no score is NaN, the ranked sequence
  is descending (no entry is followed by one with a greater score) and entries with equal
  scores keep their input order. NaN scores are dropped only afterwards, by the filter on
  the first ten and the last ten entries.
\<close>

theorem rank_excludes_absent:
  "volatilities_of results =
     map (\<lambda>r. (fst r, calculate_volatility (snd r))) (filter (\<lambda>r. snd r \<noteq> None) results)
   \<and> mset (rank results) = mset (volatilities_of results)
   \<and> (\<forall>s. (s, Some []) \<in> set results \<longrightarrow> (s, NaN) \<in> set (rank results))
   \<and> ((\<forall>x \<in> set (volatilities_of results). \<not> isnan (snd x)) \<longrightarrow>
        sorted_wrt (\<lambda>a b. \<not> flt (snd a) (snd b)) (rank results)
        \<and> (\<forall>v. filter (\<lambda>x. snd x = v) (rank results) =
                 filter (\<lambda>x. snd x = v) (volatilities_of results)))
   \<and> (\<forall>x \<in> set (top_10_volatile (rank results)) \<union> set (bottom_10_volatile (rank results)).
         \<not> isnan (snd x))"
proof (intro conjI allI impI ballI)
  show "volatilities_of results =
     map (\<lambda>r. (fst r, calculate_volatility (snd r))) (filter (\<lambda>r. snd r \<noteq> None) results)"
    by (rule volatilities_of_filter)
  show "mset (rank results) = mset (volatilities_of results)"
    by (simp add: rank_def sort_volatilities_def mset_sorted_py)
  show "(s, NaN) \<in> set (rank results)" if "(s, Some []) \<in> set results" for s
    using that by (rule empty_series_kept)
  show "sorted_wrt (\<lambda>a b. \<not> flt (snd a) (snd b)) (rank results)"
    if "\<forall>x \<in> set (volatilities_of results). \<not> isnan (snd x)"
    using that unfolding rank_def sort_volatilities_def by (rule sorted_py_descending)
  show "filter (\<lambda>x. snd x = v) (rank results) = filter (\<lambda>x. snd x = v) (volatilities_of results)"
    for v
    by (simp add: rank_def sort_volatilities_def filter_sorted_py)
  show "\<not> isnan (snd x)"
    if "x \<in> set (top_10_volatile (rank results)) \<union> set (bottom_10_volatile (rank results))" for x
    using that by (auto simp: top_10_volatile_def bottom_10_volatile_def
        dest: top_n_defined bottom_n_defined)
qed

theorem rank_excludes_absent_witness:
  "map fst (volatilities_of example_results) = [''FLATUSDT'', ''RISEUSDT'']
   \<and> mset (rank example_results) = mset (volatilities_of example_results)
   \<and> sorted_wrt (\<lambda>a b. \<not> flt (snd a) (snd b)) (rank example_results)
   \<and> filter (\<lambda>x. snd x = Fin 0) (rank example_results) = [(''FLATUSDT'', Fin 0)]"
proof -
  note r = rank_excludes_absent [of example_results]
  have d: "\<forall>x \<in> set (volatilities_of example_results). \<not> isnan (snd x)"
    by (simp add: volatilities_of_example)
  from r have m: "mset (rank example_results) = mset (volatilities_of example_results)"
    by (elim conjE)
  from r d have o: "sorted_wrt (\<lambda>a b. \<not> flt (snd a) (snd b)) (rank example_results)"
    by (elim conjE) simp
  from r d have "\<forall>v. filter (\<lambda>x. snd x = v) (rank example_results) =
      filter (\<lambda>x. snd x = v) (volatilities_of example_results)"
    by (elim conjE) simp
  then have "filter (\<lambda>x. snd x = Fin 0) (rank example_results) =
      filter (\<lambda>x. snd x = Fin 0) (volatilities_of example_results)" ..
  with sample_std_rising
  have f: "filter (\<lambda>x. snd x = Fin 0) (rank example_results) = [(''FLATUSDT'', Fin 0)]"
    by (simp add: volatilities_of_example)
  have s: "map fst (volatilities_of example_results) = [''FLATUSDT'', ''RISEUSDT'']"
    by (simp add: volatilities_of_example)
  from s m o f show ?thesis by (intro conjI)
qed

lemma symbols_disjoint:
  assumes "distinct (map fst v)" "2 * k \<le> length v"
  shows "set (map fst (slice_to (int k) v)) \<inter> set (map fst (slice_last k v)) = {}"
proof (cases "k = 0")
  case True
  then show ?thesis by (simp add: slice_to_def)
next
  case False
  from assms(2) have "k \<le> length v - k" by simp
  with assms(1) have "set (take k (map fst v)) \<inter> set (drop (length v - k) (map fst v)) = {}"
    by (metis set_take_disj_set_drop_if_distinct)
  with False show ?thesis
    by (simp add: slice_to_def slice_last_def take_map drop_map)
qed

text \<open>
  C5, as the claim states it, fails: nothing in the code removes a repeated symbol, and a
  ranked sequence of twenty entries that all carry one symbol has that symbol both in its
  first ten and in its last ten entries.
\<close>

theorem top_bottom_overlap_counterexample:
  "sort_volatilities (replicate 20 (''AAAUSDT'', Fin 1)) = replicate 20 (''AAAUSDT'', Fin 1)
   \<and> 2 * 10 \<le> length (replicate 20 (''AAAUSDT'', Fin 1))
   \<and> set (map fst (top_10_volatile (replicate 20 (''AAAUSDT'', Fin 1))))
       \<inter> set (map fst (bottom_10_volatile (replicate 20 (''AAAUSDT'', Fin 1)))) = {''AAAUSDT''}"
proof -
  have "successively (\<lambda>a b. \<not> flt (snd b) (snd a)) (replicate n (''AAAUSDT'', Fin 1))" for n
  proof (induction n)
    case 0
    show ?case by simp
  next
    case (Suc n)
    then show ?case by (cases n) simp_all
  qed
  then have "list_sort snd (replicate n (''AAAUSDT'', Fin 1)) = replicate n (''AAAUSDT'', Fin 1)" for n
    by (rule list_sort_fixed)
  then have "sort_volatilities (replicate 20 (''AAAUSDT'', Fin 1)) = replicate 20 (''AAAUSDT'', Fin 1)"
    by (simp add: sort_volatilities_def sorted_py_def)
  then show ?thesis
    by (simp add: top_10_volatile_def bottom_10_volatile_def top_n_def bottom_n_def
        slice_to_def slice_last_def)
qed

text \<open>
  C5, amended. For a ranked sequence whose symbols are pairwise distinct and every \<open>k\<close> with
  \<open>2 * k\<close> at most its length, the symbols of the first \<open>k\<close> entries and those of the last
  \<open>k\<close> entries, each filtered with \<open>not isnan\<close>, are disjoint, and no entry of either has a
  NaN score. The code takes \<open>k = 10\<close>.
\<close>

theorem top_bottom_disjoint:
  assumes "distinct (map fst v)" and "2 * k \<le> length v"
  shows "set (map fst (top_n k v)) \<inter> set (map fst (bottom_n k v)) = {}
         \<and> (\<forall>x \<in> set (top_n k v) \<union> set (bottom_n k v). \<not> isnan (snd x))"
proof -
  have "set (map fst (top_n k v)) \<subseteq> set (map fst (slice_to (int k) v))"
    and "set (map fst (bottom_n k v)) \<subseteq> set (map fst (slice_last k v))"
    by (auto simp: top_n_def bottom_n_def)
  with symbols_disjoint [OF assms]
  have "set (map fst (top_n k v)) \<inter> set (map fst (bottom_n k v)) = {}" by blast
  then show ?thesis
    by (auto dest: top_n_defined bottom_n_defined)
qed

theorem top_bottom_disjoint_witness:
  "distinct (map fst example_ranked) \<and> 2 * 2 \<le> length example_ranked
   \<and> top_n 2 example_ranked = [(''AAAUSDT'', Fin 3)]
   \<and> bottom_n 2 example_ranked = [(''CCCUSDT'', Fin 2), (''DDDUSDT'', Fin 1)]
   \<and> set (map fst (top_n 2 example_ranked)) \<inter> set (map fst (bottom_n 2 example_ranked)) = {}"
  using top_bottom_disjoint [of example_ranked 2]
  by (simp add: example_ranked_def top_n_def bottom_n_def slice_to_def slice_last_def)

section \<open>Claims on the market selection\<close>

lemma volume_keys_Some:
  "volume_keys to_float ts = Some keyed \<Longrightarrow>
     map snd keyed = ts \<and> (\<forall>p \<in> set keyed. to_float (quoteVolume (snd p)) = Some (fst p))"
proof (induction ts arbitrary: keyed)
  case Nil
  then show ?case by simp
next
  case (Cons t ts)
  then show ?case by (fastforce split: option.splits)
qed

lemma slice_to_nonneg: "0 \<le> n \<Longrightarrow> slice_to n xs = take (nat n) xs"
  by (simp add: slice_to_def)

lemma check_rate_limit_fresh_40:
  "check_rate_limit 40 (at_time 1) fresh_gate = Inr \<lparr>current_weight = 40, last_reset_time = 0\<rparr>"
  by (simp add: check_rate_limit_def reset_rate_limit_def at_time_def fresh_gate_def
      WEIGHT_THRESHOLD_def RATE_LIMIT_PER_MINUTE_def)

lemma select_example:
  "get_top_liquid_coins example_float 2 (at_time 1) fresh_gate (Inr example_tickers) =
     Inr ([''BBBUSDT'', ''DDDUSDT''], \<lparr>current_weight = 40, last_reset_time = 0\<rparr>)"
  by (simp add: get_top_liquid_coins_def check_rate_limit_fresh_40 example_tickers_def
      endswith_def example_float_def sorted_py_def list_sort_def slice_to_def)

text \<open>
  C8, as the claim states it, fails twice. With \<open>n = -1\<close> the slice \<open>sorted_tickers[:n]\<close>
  drops the last entry only, so two symbols come back where at most \<open>-1\<close> are promised.
  And a volume that parses to NaN stops the sort from ordering its neighbours: the symbol
  with volume 1 is returned before the symbol with volume 2.
\<close>

theorem select_top_negative_n_counterexample:
  "get_top_liquid_coins example_float (- 1) (at_time 1) fresh_gate (Inr example_tickers) =
     Inr ([''BBBUSDT'', ''DDDUSDT''], \<lparr>current_weight = 40, last_reset_time = 0\<rparr>)
   \<and> \<not> int (length [''BBBUSDT'', ''DDDUSDT'']) \<le> - 1
   \<and> get_top_liquid_coins example_float 3 (at_time 1) fresh_gate (Inr nan_tickers) =
     Inr ([''AAAUSDT'', ''NNNUSDT'', ''BBBUSDT''], \<lparr>current_weight = 40, last_reset_time = 0\<rparr>)
   \<and> example_float ''1'' = Some (Fin 1) \<and> example_float ''2'' = Some (Fin 2)
   \<and> flt (Fin 1) (Fin 2)"
  by (simp add: get_top_liquid_coins_def check_rate_limit_fresh_40 example_tickers_def
      nan_tickers_def endswith_def example_float_def sorted_py_def list_sort_def slice_to_def)

text \<open>
  C8, amended. For every list of ticker entries of which no quoted volume parses to NaN,
  and every \<open>n \<ge> 0\<close>: when \<open>get_top_liquid_coins\<close> returns, it returns at most \<open>n\<close> symbols,
  each ends with \<open>USDT\<close>, and they are the symbols of the first \<open>n\<close> entries of a
  rearrangement of the USDT tickers that is descending by parsed volume and keeps tickers
  of equal volume in their original order.
\<close>

theorem select_top_postcondition:
  assumes run: "get_top_liquid_coins to_float n clk g (Inr tickers) = Inr (top_coins, g')"
    and n: "0 \<le> n"
    and defined: "\<forall>t \<in> set tickers. to_float (quoteVolume t) \<noteq> Some NaN"
  shows "int (length top_coins) \<le> n
     \<and> (\<forall>s \<in> set top_coins. endswith s ''USDT'')
     \<and> (\<exists>ranked. top_coins = map symbol (take (nat n) ranked)
          \<and> mset ranked = mset (filter (\<lambda>t. endswith (symbol t) ''USDT'') tickers)
          \<and> sorted_wrt (\<lambda>a b. \<exists>x y. to_float (quoteVolume a) = Some x
                \<and> to_float (quoteVolume b) = Some y \<and> \<not> flt x y) ranked
          \<and> (\<forall>v. filter (\<lambda>t. to_float (quoteVolume t) = Some v) ranked =
                   filter (\<lambda>t. to_float (quoteVolume t) = Some v)
                     (filter (\<lambda>t. endswith (symbol t) ''USDT'') tickers)))"
proof -
  define usdt_pairs where "usdt_pairs = filter (\<lambda>t. endswith (symbol t) ''USDT'') tickers"
  from run obtain keyed where keyed: "volume_keys to_float usdt_pairs = Some keyed"
    and top: "top_coins = map symbol (slice_to n (map snd (sorted_py fst True keyed)))"
    by (auto simp: get_top_liquid_coins_def usdt_pairs_def Let_def
        split: sum.splits option.splits)
  define srt where "srt = sorted_py fst True keyed"
  define ranked where "ranked = map snd srt"
  from keyed have snd_keyed: "map snd keyed = usdt_pairs"
    and key_of: "\<forall>p \<in> set keyed. to_float (quoteVolume (snd p)) = Some (fst p)"
    using volume_keys_Some by blast+
  have set_srt: "set srt = set keyed"
    by (simp add: srt_def set_sorted_py)
  from top n have top': "top_coins = map symbol (take (nat n) ranked)"
    by (simp add: slice_to_nonneg ranked_def srt_def)
  have m: "mset ranked = mset usdt_pairs"
  proof -
    have "mset ranked = image_mset snd (mset srt)" by (simp add: ranked_def)
    also have "\<dots> = image_mset snd (mset keyed)" by (simp add: srt_def mset_sorted_py)
    also have "\<dots> = mset (map snd keyed)" by simp
    finally show ?thesis by (simp add: snd_keyed)
  qed
  then have set_ranked: "set ranked = set usdt_pairs" by (metis set_mset_mset)
  have len: "int (length top_coins) \<le> n"
    using n by (simp add: top')
  have suffix: "\<forall>s \<in> set top_coins. endswith s ''USDT''"
  proof
    fix s assume "s \<in> set top_coins"
    then obtain t where "t \<in> set (take (nat n) ranked)" "s = symbol t"
      by (auto simp: top')
    then have "t \<in> set usdt_pairs" using set_ranked by (auto dest: in_set_takeD)
    with \<open>s = symbol t\<close> show "endswith s ''USDT''" by (simp add: usdt_pairs_def)
  qed
  have no_nan: "\<forall>p \<in> set keyed. \<not> isnan (fst p)"
  proof
    fix p assume p: "p \<in> set keyed"
    then have "snd p \<in> set usdt_pairs" using snd_keyed by (metis image_eqI set_map)
    then have "snd p \<in> set tickers" by (simp add: usdt_pairs_def)
    with defined have "to_float (quoteVolume (snd p)) \<noteq> Some NaN" by blast
    with key_of p have "fst p \<noteq> NaN" by auto
    then show "\<not> isnan (fst p)" by (cases "fst p") simp_all
  qed
  then have "sorted_wrt (\<lambda>a b. \<not> flt (fst a) (fst b)) srt"
    unfolding srt_def by (rule sorted_py_descending)
  then have "sorted_wrt (\<lambda>a b. \<exists>x y. to_float (quoteVolume (snd a)) = Some x
      \<and> to_float (quoteVolume (snd b)) = Some y \<and> \<not> flt x y) srt"
    by (rule sorted_wrt_mono_rel [rotated]) (use key_of set_srt in auto)
  then have ordered: "sorted_wrt (\<lambda>a b. \<exists>x y. to_float (quoteVolume a) = Some x
      \<and> to_float (quoteVolume b) = Some y \<and> \<not> flt x y) ranked"
    by (simp add: ranked_def sorted_wrt_map)
  have stable: "filter (\<lambda>t. to_float (quoteVolume t) = Some v) ranked =
      filter (\<lambda>t. to_float (quoteVolume t) = Some v) usdt_pairs" for v
  proof -
    have "filter (\<lambda>t. to_float (quoteVolume t) = Some v) ranked =
        map snd (filter (\<lambda>p. to_float (quoteVolume (snd p)) = Some v) srt)"
      by (simp add: ranked_def filter_map comp_def)
    also have "filter (\<lambda>p. to_float (quoteVolume (snd p)) = Some v) srt =
        filter (\<lambda>p. fst p = v) srt"
      by (rule filter_cong) (use key_of set_srt in auto)
    also have "\<dots> = filter (\<lambda>p. fst p = v) keyed"
      by (simp add: srt_def filter_sorted_py)
    also have "\<dots> = filter (\<lambda>p. to_float (quoteVolume (snd p)) = Some v) keyed"
      by (rule filter_cong) (use key_of in auto)
    also have "map snd \<dots> = filter (\<lambda>t. to_float (quoteVolume t) = Some v) (map snd keyed)"
      by (simp add: filter_map comp_def)
    finally show ?thesis by (simp add: snd_keyed)
  qed
  from top' m ordered stable have "\<exists>ranked. top_coins = map symbol (take (nat n) ranked)
          \<and> mset ranked = mset usdt_pairs
          \<and> sorted_wrt (\<lambda>a b. \<exists>x y. to_float (quoteVolume a) = Some x
                \<and> to_float (quoteVolume b) = Some y \<and> \<not> flt x y) ranked
          \<and> (\<forall>v. filter (\<lambda>t. to_float (quoteVolume t) = Some v) ranked =
                   filter (\<lambda>t. to_float (quoteVolume t) = Some v) usdt_pairs)"
    by blast
  with len suffix show ?thesis
    unfolding usdt_pairs_def by blast
qed

theorem select_top_postcondition_witness:
  "get_top_liquid_coins example_float 2 (at_time 1) fresh_gate (Inr example_tickers) =
     Inr ([''BBBUSDT'', ''DDDUSDT''], \<lparr>current_weight = 40, last_reset_time = 0\<rparr>)
   \<and> (0::int) \<le> 2
   \<and> int (length [''BBBUSDT'', ''DDDUSDT'']) \<le> 2
   \<and> endswith ''BBBUSDT'' ''USDT'' \<and> endswith ''DDDUSDT'' ''USDT''"
proof -
  have d: "\<forall>t \<in> set example_tickers. example_float (quoteVolume t) \<noteq> Some NaN"
    by (simp add: example_tickers_def example_float_def)
  from select_top_postcondition [OF select_example _ d]
  have "int (length [''BBBUSDT'', ''DDDUSDT'']) \<le> 2
     \<and> (\<forall>s \<in> set [''BBBUSDT'', ''DDDUSDT'']. endswith s ''USDT'')"
    by simp
  with select_example show ?thesis by simp
qed

section \<open>Claims on the rate gate\<close>

lemma reset_unlocked: "reset_rate_limit False t g = Inr (window_start t g)"
  by (simp add: reset_rate_limit_def window_start_def)

lemma reset_after_sleep:
  assumes "0 < 60 - (t_check clk - last_reset_time g)"
  shows "reset_rate_limit True (time_after_sleep clk (60 - (t_check clk - last_reset_time g))) g
           = Inl Deadlock"
proof -
  have "t_check clk + (60 - (t_check clk - last_reset_time g)) - last_reset_time g = 60"
    by simp
  then have "60 \<le> time_after_sleep clk (60 - (t_check clk - last_reset_time g)) - last_reset_time g"
    unfolding time_after_sleep_def by linarith
  then show ?thesis by (simp add: reset_rate_limit_def)
qed

lemma check_rate_limit_cases:
  "check_rate_limit w clk g =
     (let g1 = window_start (t_entry clk) g in
      if real_of_int (current_weight g1 + w) > WEIGHT_THRESHOLD
         \<and> t_check clk - last_reset_time g1 < 60
      then Inl Deadlock
      else Inr (g1\<lparr>current_weight := current_weight g1 + w\<rparr>))"
proof -
  define g1 where "g1 = window_start (t_entry clk) g"
  show ?thesis
  proof (cases "real_of_int (current_weight g1 + w) > WEIGHT_THRESHOLD
         \<and> t_check clk - last_reset_time g1 < 60")
    case True
    then have "0 < 60 - (t_check clk - last_reset_time g1)" by simp
    from reset_after_sleep [OF this] True show ?thesis
      by (simp add: check_rate_limit_def reset_unlocked g1_def [symmetric] Let_def)
  next
    case False
    then show ?thesis
      by (auto simp add: check_rate_limit_def reset_unlocked g1_def [symmetric] Let_def)
  qed
qed


lemma threshold_value: "WEIGHT_THRESHOLD = 1080"
  by (simp add: WEIGHT_THRESHOLD_def RATE_LIMIT_PER_MINUTE_def)

lemma acquire_all_append:
  "acquire_all (xs @ ys) g =
     (case acquire_all xs g of Inl e \<Rightarrow> Inl e | Inr g1 \<Rightarrow> acquire_all ys g1)"
  by (induction xs g rule: acquire_all.induct) (simp_all split: sum.splits)

lemma acquire_all_replicate:
  assumes "t_entry clk - last_reset_time g < 60" and "0 \<le> w"
    and "real_of_int (current_weight g + int n * w) \<le> WEIGHT_THRESHOLD"
  shows "acquire_all (replicate n (w, clk)) g =
           Inr (g\<lparr>current_weight := current_weight g + int n * w\<rparr>)"
  using assms
proof (induction n arbitrary: g)
  case 0
  then show ?case by simp
next
  case (Suc n)
  let ?g = "g\<lparr>current_weight := current_weight g + w\<rparr>"
  from Suc.prems have "current_weight g + w \<le> current_weight g + int (Suc n) * w"
    by (simp add: algebra_simps)
  with Suc.prems have "real_of_int (current_weight g + w) \<le> WEIGHT_THRESHOLD"
    by linarith
  with Suc.prems have step: "check_rate_limit w clk g = Inr ?g"
    by (simp add: check_rate_limit_cases window_start_def)
  from Suc.prems have "acquire_all (replicate n (w, clk)) ?g =
      Inr (?g\<lparr>current_weight := current_weight ?g + int n * w\<rparr>)"
    by (intro Suc.IH) (simp_all add: algebra_simps)
  with step show ?case by (simp add: algebra_simps)
qed

lemma consume_1080:
  "acquire_all (replicate 27 (40, at_time 1)) fresh_gate
     = Inr \<lparr>current_weight = 1080, last_reset_time = 0\<rparr>"
proof -
  have "acquire_all (replicate 27 (40, at_time 1)) fresh_gate =
      Inr (fresh_gate\<lparr>current_weight := current_weight fresh_gate + int 27 * 40\<rparr>)"
    by (rule acquire_all_replicate) (simp_all add: at_time_def fresh_gate_def threshold_value)
  then show ?thesis by (simp add: fresh_gate_def)
qed

text \<open>
  C1, as the claim states it, fails. The entry check and the computation of \<open>sleep_time\<close>
  read the clock separately. After 27 calls of weight 40 have consumed 1080 units, a call of
  weight 1 whose two readings fall on either side of the end of the window (59.5 s and
  60.5 s after its start) does not reset the counter, finds \<open>sleep_time\<close> not positive, does
  not sleep, and adds the weight: it returns with 1081 consumed, above the threshold of
  1080.
\<close>

theorem rate_gate_overshoot_counterexample:
  "acquire_all
     (replicate 27 (40, at_time 1) @ [(1, \<lparr>t_entry = 59.5, t_check = 60.5, t_wake = 60.5\<rparr>)])
     fresh_gate
     = Inr \<lparr>current_weight = 1081, last_reset_time = 0\<rparr>
   \<and> WEIGHT_THRESHOLD < real_of_int 1081
   \<and> (60 :: real) \<le> 60.5 - 0"
  by (simp add: acquire_all_append consume_1080 check_rate_limit_cases window_start_def
      threshold_value)

text \<open>
  C1, amended. For every sequence of \<open>check_rate_limit\<close> calls by one thread and every call
  of it that returns: the call resets the counter to 0 and restarts the window at its
  first clock reading exactly when that reading is 60 s or more after the window start,
  and then adds the weight; and after the call the counter is at most the threshold of
  1080 whenever the window has not run out by the time the call computes \<open>sleep_time\<close>.
  When it has run out by then, the call adds the weight without blocking and the counter
  may exceed the threshold. Nothing is said here about a call that does not return.
\<close>

theorem rate_gate_window:
  assumes "acquire_all (calls @ [(w, clk)]) g0 = Inr g'"
  shows "\<exists>g. acquire_all calls g0 = Inr g \<and> check_rate_limit w clk g = Inr g'
     \<and> (60 \<le> t_entry clk - last_reset_time g \<longrightarrow>
          current_weight g' = 0 + w \<and> last_reset_time g' = t_entry clk)
     \<and> (t_entry clk - last_reset_time g < 60 \<longrightarrow>
          current_weight g' = current_weight g + w \<and> last_reset_time g' = last_reset_time g)
     \<and> (t_check clk - last_reset_time g' < 60 \<longrightarrow>
          real_of_int (current_weight g') \<le> WEIGHT_THRESHOLD)"
proof -
  from assms obtain g where g: "acquire_all calls g0 = Inr g"
    and step: "check_rate_limit w clk g = Inr g'"
    by (auto simp: acquire_all_append split: sum.splits)
  from step have "(60 \<le> t_entry clk - last_reset_time g \<longrightarrow>
          current_weight g' = 0 + w \<and> last_reset_time g' = t_entry clk)
     \<and> (t_entry clk - last_reset_time g < 60 \<longrightarrow>
          current_weight g' = current_weight g + w \<and> last_reset_time g' = last_reset_time g)
     \<and> (t_check clk - last_reset_time g' < 60 \<longrightarrow>
          real_of_int (current_weight g') \<le> WEIGHT_THRESHOLD)"
    by (auto simp: check_rate_limit_cases window_start_def Let_def split: if_splits)
  with g step show ?thesis by blast
qed

theorem rate_gate_window_witness:
  "acquire_all ([(40, at_time 1)] @ [(1, at_time 61)]) fresh_gate
     = Inr \<lparr>current_weight = 1, last_reset_time = 61\<rparr>
   \<and> acquire_all [(40, at_time 1)] fresh_gate = Inr \<lparr>current_weight = 40, last_reset_time = 0\<rparr>
   \<and> (60 :: real) \<le> t_entry (at_time 61) - 0
   \<and> t_check (at_time 61) - 61 < 60
   \<and> real_of_int 1 \<le> WEIGHT_THRESHOLD"
proof -
  have run: "acquire_all ([(40, at_time 1)] @ [(1, at_time 61)]) fresh_gate
     = Inr \<lparr>current_weight = 1, last_reset_time = 61\<rparr>"
    by (simp add: check_rate_limit_cases window_start_def threshold_value at_time_def fresh_gate_def)
  have first: "acquire_all [(40, at_time 1)] fresh_gate = Inr \<lparr>current_weight = 40, last_reset_time = 0\<rparr>"
    by (simp add: check_rate_limit_cases window_start_def threshold_value at_time_def fresh_gate_def)
  from rate_gate_window [OF run] first
  have "t_check (at_time 61) - 61 < 60 \<longrightarrow> real_of_int 1 \<le> WEIGHT_THRESHOLD"
    by auto
  moreover have "t_check (at_time 61) - 61 < 60" by (simp add: at_time_def)
  ultimately have "real_of_int 1 \<le> WEIGHT_THRESHOLD" by blast
  with run first show ?thesis by (simp add: at_time_def)
qed

text \<open>
  C2. The claim says that, once 1080 units are consumed in a window, the next
  \<open>check_rate_limit(1)\<close> sleeps for the rest of the window once, resets the window, adds the
  weight and returns. The code sleeps once, and then calls \<open>reset_rate_limit\<close> while it
  still holds \<open>lock\<close>; the window has run out by then, so \<open>reset_rate_limit\<close> enters
  \<open>with lock:\<close> on a lock its own thread holds and waits for ever. The call never resets
  the window, never adds the weight and never returns. Here: 27 calls of weight 40 one
  second into the window, then a call of weight 1 ten seconds into it.
\<close>

theorem check_rate_limit_never_returns:
  "acquire_all (replicate 27 (40, at_time 1)) fresh_gate
     = Inr \<lparr>current_weight = 1080, last_reset_time = 0\<rparr>
   \<and> check_rate_limit 1 (at_time 10) \<lparr>current_weight = 1080, last_reset_time = 0\<rparr> = Inl Deadlock
   \<and> acquire_all (replicate 27 (40, at_time 1) @ [(1, at_time 10)]) fresh_gate = Inl Deadlock"
proof -
  have "check_rate_limit 1 (at_time 10) \<lparr>current_weight = 1080, last_reset_time = 0\<rparr> = Inl Deadlock"
    by (simp add: check_rate_limit_cases window_start_def threshold_value at_time_def)
  with consume_1080 show ?thesis by (simp add: acquire_all_append)
qed

section \<open>Claims on the fetch\<close>

lemma check_rate_limit_returns:
  assumes "0 \<le> w" and "0 \<le> current_weight g"
    and "real_of_int (current_weight g + w) \<le> WEIGHT_THRESHOLD"
  shows "check_rate_limit w clk g \<noteq> Inl Deadlock"
  using assms by (auto simp: check_rate_limit_cases window_start_def Let_def)






section \<open>Claims on the portfolio report\<close>

lemma entry_value_expected: "entry_value (expected_entry f tp a av io) =
    (if asset_symbol a = ''EUR'' then av
     else (case fetch_price f tp (asset_symbol a) of Some price \<Rightarrow> (av + io) * price | None \<Rightarrow> 0))"
  by (simp add: expected_entry_def)

lemma value_assets_acc:
  "value_assets f tp bal acc vals = Inr (acc', vals') \<Longrightarrow>
     \<exists>new. vals' = vals @ new
       \<and> list_all2 (\<lambda>a e. \<exists>av io. f (available a) = Some av \<and> f (inOrder a) = Some io
                         \<and> e = expected_entry f tp a av io) bal new
       \<and> acc' = acc + sum_list (map entry_value new)"
proof (induction bal arbitrary: acc vals)
  case Nil
  then show ?case by simp
next
  case (Cons a rest)
  from Cons.prems obtain av io where av: "f (available a) = Some av" and io: "f (inOrder a) = Some io"
    by (auto split: option.splits)
  define e where "e = expected_entry f tp a av io"
  have "value_assets f tp (a # rest) acc vals =
      value_assets f tp rest (acc + entry_value e) (vals @ [e])"
    unfolding e_def entry_value_expected
    by (simp add: av io expected_entry_def Let_def split: option.splits)
  with Cons.prems have "value_assets f tp rest (acc + entry_value e) (vals @ [e]) = Inr (acc', vals')"
    by simp
  from Cons.IH [OF this] obtain new where new: "vals' = (vals @ [e]) @ new"
    and all: "list_all2 (\<lambda>a e. \<exists>av io. f (available a) = Some av \<and> f (inOrder a) = Some io
                         \<and> e = expected_entry f tp a av io) rest new"
    and sum: "acc' = acc + entry_value e + sum_list (map entry_value new)"
    by blast
  from av io all have "list_all2 (\<lambda>a e. \<exists>av io. f (available a) = Some av \<and> f (inOrder a) = Some io
                         \<and> e = expected_entry f tp a av io) (a # rest) (e # new)"
    by (auto simp: e_def)
  moreover from new have "vals' = vals @ (e # new)" by simp
  moreover from sum have "acc' = acc + sum_list (map entry_value (e # new))" by simp
  ultimately show ?case by blast
qed

lemma portfolio_body_values:
  assumes "portfolio_body to_real env = Inr result" and "balance env = Inr bal"
  shows "\<exists>acc vals. result ''portfolio_value_eur'' = Some (VFloat acc)
     \<and> result ''asset_values'' = Some (VList vals)
     \<and> length vals = length bal
     \<and> acc = sum_list (map entry_value vals)
     \<and> (\<forall>i < length bal. \<exists>avail in_order.
          to_real (available (bal ! i)) = Some avail \<and> to_real (inOrder (bal ! i)) = Some in_order
          \<and> (asset_symbol (bal ! i) = ''EUR'' \<longrightarrow>
                vals ! i = VList [VStr ''EUR'', VFloat (avail + in_order), VFloat avail])
          \<and> (asset_symbol (bal ! i) \<noteq> ''EUR'' \<longrightarrow>
                (\<forall>price. fetch_price to_real (tickerPrice env) (asset_symbol (bal ! i)) = Some price \<longrightarrow>
                   vals ! i = VList [VStr (asset_symbol (bal ! i)), VFloat (avail + in_order),
                                     VFloat ((avail + in_order) * price)])))"
proof -
  from assms obtain acc vals remaining
    where loop: "value_assets to_real (tickerPrice env) bal 0 [] = Inr (acc, vals)"
      and result: "result = [''portfolio_value_eur'' \<mapsto> VFloat acc,
                            ''asset_values'' \<mapsto> VList vals,
                            ''rate_limit_remaining'' \<mapsto> VInt remaining]"
    by (auto simp: portfolio_body_def split: if_splits sum.splits prod.splits)
  from value_assets_acc [OF loop]
  have all: "list_all2 (\<lambda>a e. \<exists>av io. to_real (available a) = Some av \<and> to_real (inOrder a) = Some io
                         \<and> e = expected_entry to_real (tickerPrice env) a av io) bal vals"
    and sum: "acc = sum_list (map entry_value vals)"
    by auto
  from all have len: "length vals = length bal" by (simp add: list_all2_lengthD)
  have each: "\<exists>avail in_order.
          to_real (available (bal ! i)) = Some avail \<and> to_real (inOrder (bal ! i)) = Some in_order
          \<and> (asset_symbol (bal ! i) = ''EUR'' \<longrightarrow>
                vals ! i = VList [VStr ''EUR'', VFloat (avail + in_order), VFloat avail])
          \<and> (asset_symbol (bal ! i) \<noteq> ''EUR'' \<longrightarrow>
                (\<forall>price. fetch_price to_real (tickerPrice env) (asset_symbol (bal ! i)) = Some price \<longrightarrow>
                   vals ! i = VList [VStr (asset_symbol (bal ! i)), VFloat (avail + in_order),
                                     VFloat ((avail + in_order) * price)]))"
    if "i < length bal" for i
  proof -
    from all that obtain av io where "to_real (available (bal ! i)) = Some av"
      "to_real (inOrder (bal ! i)) = Some io"
      "vals ! i = expected_entry to_real (tickerPrice env) (bal ! i) av io"
      by (auto dest: list_all2_nthD)
    then show ?thesis
      by (auto simp: expected_entry_def)
  qed
  from result have "result ''portfolio_value_eur'' = Some (VFloat acc)"
    and "result ''asset_values'' = Some (VList vals)"
    by simp_all
  with len sum each show ?thesis by blast
qed

lemma example_body:
  "portfolio_body example_real example_env =
     Inr [''portfolio_value_eur'' \<mapsto> VFloat 19,
          ''asset_values'' \<mapsto> VList [VList [VStr ''EUR'', VFloat 12, VFloat 10],
                                         VList [VStr ''BTC'', VFloat 3, VFloat 9]],
          ''rate_limit_remaining'' \<mapsto> VInt 900]"
  by (simp add: portfolio_body_def example_env_def unset_def example_real_def
      fetch_price_def example_prices_def)





text \<open>
  C10. In a portfolio without \<open>error\<close>, \<open>asset_values\<close> has one entry per balance entry, in
  order, and the total is the sum of the entries' \<open>value_eur\<close>. The entry of the EUR asset
  reports \<open>available + inOrder\<close> as its amount but only \<open>available\<close> as its value; the entry
  of any other asset whose price was fetched reports \<open>available + inOrder\<close> and values it
  at \<open>(available + inOrder) * price\<close>.
\<close>

theorem eur_counts_available_only:
  assumes "get_bitvavo_portfolio to_real env = result" and "''error'' \<notin> dom result"
    and "balance env = Inr bal"
  shows "\<exists>acc vals. result ''portfolio_value_eur'' = Some (VFloat acc)
     \<and> result ''asset_values'' = Some (VList vals)
     \<and> length vals = length bal
     \<and> acc = sum_list (map entry_value vals)
     \<and> (\<forall>i < length bal. \<exists>avail in_order.
          to_real (available (bal ! i)) = Some avail \<and> to_real (inOrder (bal ! i)) = Some in_order
          \<and> (asset_symbol (bal ! i) = ''EUR'' \<longrightarrow>
                vals ! i = VList [VStr ''EUR'', VFloat (avail + in_order), VFloat avail])
          \<and> (asset_symbol (bal ! i) \<noteq> ''EUR'' \<longrightarrow>
                (\<forall>price. fetch_price to_real (tickerPrice env) (asset_symbol (bal ! i)) = Some price \<longrightarrow>
                   vals ! i = VList [VStr (asset_symbol (bal ! i)), VFloat (avail + in_order),
                                     VFloat ((avail + in_order) * price)])))"
proof (cases "portfolio_body to_real env")
  case (Inl e)
  with assms(1, 2) show ?thesis
    by (auto simp: get_bitvavo_portfolio_def)
next
  case (Inr r)
  with assms(1) have "portfolio_body to_real env = Inr result"
    by (simp add: get_bitvavo_portfolio_def)
  from portfolio_body_values [OF this assms(3)] show ?thesis .
qed

lemma example_portfolio:
  "get_bitvavo_portfolio example_real example_env =
     [''portfolio_value_eur'' \<mapsto> VFloat 19,
      ''asset_values'' \<mapsto> VList [VList [VStr ''EUR'', VFloat 12, VFloat 10],
                                     VList [VStr ''BTC'', VFloat 3, VFloat 9]],
      ''rate_limit_remaining'' \<mapsto> VInt 900]"
  by (simp add: get_bitvavo_portfolio_def example_body)

theorem eur_counts_available_only_witness:
  "get_bitvavo_portfolio example_real example_env =
     [''portfolio_value_eur'' \<mapsto> VFloat 19,
      ''asset_values'' \<mapsto> VList [VList [VStr ''EUR'', VFloat 12, VFloat 10],
                                     VList [VStr ''BTC'', VFloat 3, VFloat 9]],
      ''rate_limit_remaining'' \<mapsto> VInt 900]
   \<and> example_real ''10'' = Some 10 \<and> example_real ''2'' = Some 2
   \<and> (19 :: real) = sum_list (map entry_value [VList [VStr ''EUR'', VFloat 12, VFloat 10],
                                                 VList [VStr ''BTC'', VFloat 3, VFloat 9]])
   \<and> fetch_price example_real example_prices ''BTC'' = Some 3"
proof -
  have bal: "balance example_env =
      Inr [\<lparr>asset_symbol = ''EUR'', available = ''10'', inOrder = ''2''\<rparr>,
           \<lparr>asset_symbol = ''BTC'', available = ''1'', inOrder = ''2''\<rparr>]"
    by (simp add: example_env_def)
  have no_error: "''error'' \<notin> dom (get_bitvavo_portfolio example_real example_env)"
    by (simp add: example_portfolio)
  from eur_counts_available_only [OF refl no_error bal]
  have "(19 :: real) = sum_list (map entry_value [VList [VStr ''EUR'', VFloat 12, VFloat 10],
                                                 VList [VStr ''BTC'', VFloat 3, VFloat 9]])"
    by (simp add: example_portfolio)
  moreover have "fetch_price example_real example_prices ''BTC'' = Some 3"
    by (simp add: fetch_price_def example_prices_def example_real_def)
  moreover have "example_real ''10'' = Some 10 \<and> example_real ''2'' = Some 2"
    by (simp add: example_real_def)
  ultimately show ?thesis using example_portfolio by simp
qed

end
